theory Spec2Isabelle
  imports Complex_Main "HOL-Library.Sublist"
begin

section \<open>Python strings\<close>

text \<open>
  Strings are lists of characters. The model covers ASCII text: \<open>lower\<close> folds
  \<open>A\<close>..\<open>Z\<close> only, and the whitespace and digit classes are the ASCII members of
  Python's \<open>str.isspace\<close> and \<open>\d\<close>.
\<close>

definition lower_char :: "char \<Rightarrow> char" where
  "lower_char c =
     (case map_of (zip ''ABCDEFGHIJKLMNOPQRSTUVWXYZ'' ''abcdefghijklmnopqrstuvwxyz'') c of
        Some d \<Rightarrow> d
      | None \<Rightarrow> c)"

definition py_lower :: "string \<Rightarrow> string" where
  "py_lower s = map lower_char s"

definition is_space :: "char \<Rightarrow> bool" where
  "is_space c = (c \<in> set [CHR 0x09, CHR 0x0A, CHR 0x0B, CHR 0x0C, CHR 0x0D,
                           CHR 0x1C, CHR 0x1D, CHR 0x1E, CHR 0x1F, CHR 0x20])"

definition is_digit :: "char \<Rightarrow> bool" where
  "is_digit c = (c \<in> set ''0123456789'')"

definition py_strip :: "string \<Rightarrow> string" where
  "py_strip s = rev (dropWhile is_space (rev (dropWhile is_space s)))"

text \<open>\<open>sub in s\<close>: \<open>sub\<close> occurs in \<open>s\<close> as a contiguous run.\<close>

fun py_in :: "string \<Rightarrow> string \<Rightarrow> bool" where
  "py_in sub [] = (sub = [])"
| "py_in sub (c # s) = (prefix sub (c # s) \<or> py_in sub s)"

definition endswith :: "string \<Rightarrow> string \<Rightarrow> bool" where
  "endswith s suf = prefix (rev suf) (rev s)"

fun py_join :: "string \<Rightarrow> string list \<Rightarrow> string" where
  "py_join sep [] = []"
| "py_join sep [x] = x"
| "py_join sep (x # y # ys) = x @ sep @ py_join sep (y # ys)"

section \<open>The regular expressions of the extractors\<close>

text \<open>
  Every pattern of the scraper is a sequence of single-character classes under a greedy
  bounded repetition, closed by one capture group, and every call passes
  \<open>re.IGNORECASE\<close>. A pattern is the pair of the items before the group and the items
  inside it.
\<close>

datatype cset = Chr char | Digit | Space | Union cset cset | Compl cset

fun cset_mem :: "cset \<Rightarrow> char \<Rightarrow> bool" where
  "cset_mem (Chr a) c = (lower_char c = lower_char a)"
| "cset_mem Digit c = is_digit c"
| "cset_mem Space c = is_space c"
| "cset_mem (Union A B) c = (cset_mem A c \<or> cset_mem B c)"
| "cset_mem (Compl A) c = (\<not> cset_mem A c)"

datatype item = Rep cset nat "nat option"

type_synonym pattern = "item list \<times> item list"

definition lit :: "string \<Rightarrow> item list" where
  "lit w = map (\<lambda>c. Rep (Chr c) 1 (Some 1)) w"

definition star :: "cset \<Rightarrow> item" where
  "star A = Rep A 0 None"

definition plus1 :: "cset \<Rightarrow> item" where
  "plus1 A = Rep A 1 None"

definition one :: "cset \<Rightarrow> item" where
  "one A = Rep A 1 (Some 1)"

definition rep :: "cset \<Rightarrow> nat \<Rightarrow> nat \<Rightarrow> item" where
  "rep A lo hi = Rep A lo (Some hi)"

text \<open>The longest run a repetition may take at the head of the text.\<close>

definition avail :: "cset \<Rightarrow> nat option \<Rightarrow> string \<Rightarrow> nat" where
  "avail A hi s =
     (let n = length (takeWhile (cset_mem A) s)
      in case hi of None \<Rightarrow> n | Some h \<Rightarrow> min h n)"

text \<open>Backtracking: the counts \<open>n\<close>, \<open>n - 1\<close>, ... down to \<open>lo\<close>, first success wins.\<close>

fun try_down :: "(nat \<Rightarrow> 'a option) \<Rightarrow> nat \<Rightarrow> nat \<Rightarrow> 'a option" where
  "try_down f lo 0 = (if lo = 0 then f 0 else None)"
| "try_down f lo (Suc k) =
     (if Suc k < lo then None
      else case f (Suc k) of Some r \<Rightarrow> Some r | None \<Rightarrow> try_down f lo k)"

text \<open>A match anchored at the head of the text: the number of characters each item took.\<close>

fun match_here :: "item list \<Rightarrow> string \<Rightarrow> nat list option" where
  "match_here [] s = Some []"
| "match_here (Rep A lo hi # rest) s =
     try_down (\<lambda>k. map_option ((#) k) (match_here rest (drop k s))) lo (avail A hi s)"

text \<open>The length of the whole match and the text of group 1.\<close>

definition match_at :: "pattern \<Rightarrow> string \<Rightarrow> (nat \<times> string) option" where
  "match_at p s =
     (case match_here (fst p @ snd p) s of
        None \<Rightarrow> None
      | Some ks \<Rightarrow>
          let a = sum_list (take (length (fst p)) ks);
              b = sum_list (drop (length (fst p)) ks)
          in Some (a + b, take b (drop a s)))"

text \<open>\<open>re.search(p, s, re.IGNORECASE)\<close>, as group 1 of the leftmost match.\<close>

fun re_search :: "pattern \<Rightarrow> string \<Rightarrow> string option" where
  "re_search p [] = map_option snd (match_at p [])"
| "re_search p (c # s) =
     (case match_at p (c # s) of
        Some (n, g) \<Rightarrow> Some g
      | None \<Rightarrow> re_search p s)"

text \<open>
  \<open>re.findall(p, s, flags)\<close> for a pattern with one group: group 1 of each match,
  left to right, the scan resuming behind each match (\<open>skip\<close> counts the characters
  of the last match still to pass).
\<close>

fun findall_from :: "pattern \<Rightarrow> nat \<Rightarrow> string \<Rightarrow> string list" where
  "findall_from p skip [] =
     (if skip = 0 then (case match_at p [] of Some (n, g) \<Rightarrow> [g] | None \<Rightarrow> []) else [])"
| "findall_from p skip (c # s) =
     (if 0 < skip then findall_from p (skip - 1) s
      else case match_at p (c # s) of
             Some (n, g) \<Rightarrow> g # findall_from p (n - 1) s
           | None \<Rightarrow> findall_from p 0 s)"

definition re_findall :: "pattern \<Rightarrow> string \<Rightarrow> string list" where
  "re_findall p s = findall_from p 0 s"

section \<open>Field extractor\<close>

text \<open>
  The extractors read \<open>soup.get_text()\<close> and \<open>soup.find_all('a', href=True)\<close>; the
  HTML parser is outside the repository, so a parsed document is the pair of both.
\<close>

record anchor =
  href :: string
  anchor_text :: string

record soup =
  get_text :: string
  find_all_a_href :: "anchor list"

definition colon_or_space :: cset where
  "colon_or_space = Union (Chr CHR '':'') Space"

definition not_lt_nl_cr :: cset where
  "not_lt_nl_cr = Compl (Union (Chr CHR ''<'') (Union (Chr CHR 0x0A) (Chr CHR 0x0D)))"

definition dash_or_slash :: cset where
  "dash_or_slash = Union (Chr CHR ''-'') (Chr CHR ''/'')"

text \<open>\<open>(\d{1,2}[-/]\d{1,2}[-/]\d{2,4})\<close>\<close>

definition date_group :: "item list" where
  "date_group = [rep Digit 1 2, one dash_or_slash, rep Digit 1 2, one dash_or_slash, rep Digit 2 4]"

definition parties_patterns :: "pattern list" where
  "parties_patterns =
     [(lit ''petitioner'' @ [star colon_or_space], [plus1 not_lt_nl_cr]),
      (lit ''respondent'' @ [star colon_or_space], [plus1 not_lt_nl_cr]),
      (lit ''appellant'' @ [star colon_or_space], [plus1 not_lt_nl_cr]),
      (lit ''plaintiff'' @ [star colon_or_space], [plus1 not_lt_nl_cr]),
      (lit ''defendant'' @ [star colon_or_space], [plus1 not_lt_nl_cr])]"

definition extract_parties :: "soup \<Rightarrow> string" where
  "extract_parties sp =
     (let text = py_lower (get_text sp);
          parties = foldl (\<lambda>parties pattern.
                       parties @ map py_strip (re_findall pattern text)) [] parties_patterns
      in if parties \<noteq> [] then py_join ''; '' parties else ''Parties information not found'')"

text \<open>The loop of the date and status extractors: the first pattern with a match returns.\<close>

fun first_match :: "pattern list \<Rightarrow> string \<Rightarrow> string option" where
  "first_match [] text = None"
| "first_match (pattern # patterns) text =
     (case re_search pattern text of
        Some g \<Rightarrow> Some g
      | None \<Rightarrow> first_match patterns text)"

definition filing_date_patterns :: "pattern list" where
  "filing_date_patterns =
     [(lit ''filed'' @ [plus1 Space] @ lit ''on'' @ [star colon_or_space], date_group),
      (lit ''filing'' @ [plus1 Space] @ lit ''date'' @ [star colon_or_space], date_group),
      (lit ''date'' @ [plus1 Space] @ lit ''of'' @ [plus1 Space] @ lit ''filing''
         @ [star colon_or_space], date_group)]"

definition extract_filing_date :: "soup \<Rightarrow> string" where
  "extract_filing_date sp =
     (case first_match filing_date_patterns (get_text sp) of
        Some g \<Rightarrow> g
      | None \<Rightarrow> ''Filing date not found'')"

definition next_hearing_patterns :: "pattern list" where
  "next_hearing_patterns =
     [(lit ''next'' @ [plus1 Space] @ lit ''hearing'' @ [star colon_or_space], date_group),
      (lit ''next'' @ [plus1 Space] @ lit ''date'' @ [star colon_or_space], date_group),
      (lit ''hearing'' @ [plus1 Space] @ lit ''date'' @ [star colon_or_space], date_group)]"

definition extract_next_hearing :: "soup \<Rightarrow> string" where
  "extract_next_hearing sp =
     (case first_match next_hearing_patterns (get_text sp) of
        Some g \<Rightarrow> g
      | None \<Rightarrow> ''Next hearing date not found'')"

definition case_status_patterns :: "pattern list" where
  "case_status_patterns =
     [(lit ''status'' @ [star colon_or_space], [plus1 not_lt_nl_cr]),
      (lit ''stage'' @ [star colon_or_space], [plus1 not_lt_nl_cr]),
      (lit ''current'' @ [plus1 Space] @ lit ''status'' @ [star colon_or_space],
         [plus1 not_lt_nl_cr])]"

definition extract_case_status :: "soup \<Rightarrow> string" where
  "extract_case_status sp =
     (case first_match case_status_patterns (get_text sp) of
        Some g \<Rightarrow> py_strip g
      | None \<Rightarrow> ''Case status not found'')"

section \<open>Results as dictionaries, exceptions as values\<close>

datatype pyval =
    PyBool bool
  | PyStr string
  | PyInt int
  | PyBytes string
  | PyList "pyval list"
  | PyDict "(string \<times> pyval) list"

type_synonym dict = "(string \<times> pyval) list"

datatype exn =
    TimeoutException string
  | RequestException string
  | KeyError string
  | AttributeError string
  | ValueError string
  | OtherException string

fun str_exn :: "exn \<Rightarrow> string" where
  "str_exn (TimeoutException m) = m"
| "str_exn (RequestException m) = m"
| "str_exn (KeyError m) = m"
| "str_exn (AttributeError m) = m"
| "str_exn (ValueError m) = m"
| "str_exn (OtherException m) = m"

definition keys :: "dict \<Rightarrow> string list" where
  "keys d = map fst d"

text \<open>\<open>d[k]\<close> raises on a missing key; \<open>if v:\<close> tests truthiness.\<close>

definition subscript :: "dict \<Rightarrow> string \<Rightarrow> exn + pyval" where
  "subscript d k = (case map_of d k of None \<Rightarrow> Inl (KeyError k) | Some v \<Rightarrow> Inr v)"

fun truthy :: "pyval \<Rightarrow> bool" where
  "truthy (PyBool b) = b"
| "truthy (PyStr s) = (s \<noteq> [])"
| "truthy (PyInt i) = (i \<noteq> 0)"
| "truthy (PyBytes s) = (s \<noteq> [])"
| "truthy (PyList vs) = (vs \<noteq> [])"
| "truthy (PyDict d) = (d \<noteq> [])"

section \<open>Link extractor\<close>

text \<open>
  \<open>urljoin\<close> belongs to the standard library and is a parameter; it may raise
  (\<open>ValueError\<close> on a malformed authority), which ends the loop.
\<close>

definition is_pdf_link :: "string \<Rightarrow> string \<Rightarrow> bool" where
  "is_pdf_link h link_text =
     (endswith (py_lower h) ''.pdf'' \<or> py_in ''pdf'' (py_lower h) \<or>
      list_ex (\<lambda>keyword. py_in keyword (py_lower link_text))
        [''order'', ''judgment'', ''download'', ''pdf''])"

fun pdf_links_loop ::
  "(string \<Rightarrow> string \<Rightarrow> exn + string) \<Rightarrow> string \<Rightarrow> anchor list \<Rightarrow> pyval list \<Rightarrow> exn + pyval list"
where
  "pdf_links_loop urljoin base_url [] pdf_links = Inr pdf_links"
| "pdf_links_loop urljoin base_url (link # links) pdf_links =
     (let h = href link;
          link_text = py_strip (anchor_text link)
      in if is_pdf_link h link_text then
           (case urljoin base_url h of
              Inl e \<Rightarrow> Inl e
            | Inr full_url \<Rightarrow>
                pdf_links_loop urljoin base_url links
                  (pdf_links @
                   [PyDict [(''url'', PyStr full_url),
                            (''text'', PyStr (if link_text \<noteq> [] then link_text
                                              else ''Download PDF''))]]))
         else pdf_links_loop urljoin base_url links pdf_links)"

definition extract_pdf_links ::
  "(string \<Rightarrow> string \<Rightarrow> exn + string) \<Rightarrow> soup \<Rightarrow> string \<Rightarrow> exn + pyval list"
where
  "extract_pdf_links urljoin sp base_url =
     pdf_links_loop urljoin base_url (find_all_a_href sp) []"

section \<open>Integers as text\<close>

fun str_nat :: "nat \<Rightarrow> string" where
  "str_nat n =
     (if n < 10 then [''0123456789'' ! n]
      else str_nat (n div 10) @ [''0123456789'' ! (n mod 10)])"

declare str_nat.simps [simp del]

definition str_int :: "int \<Rightarrow> string" where
  "str_int i = (if i < 0 then ''-'' @ str_nat (nat (- i)) else str_nat (nat i))"

section \<open>The browser session\<close>

text \<open>
  The browser is outside the repository. A \<open>world\<close> fixes what one retrieval meets:
  which driver call raises, whether CAPTCHA elements and a search button are on the page,
  the page source the driver reports, and the two library functions of the parse step.
  \<^item> \<open>setup_fault\<close>: \<open>setup_driver\<close> raises;
  \<^item> \<open>get_fault\<close>: \<open>driver.get\<close> raises;
  \<^item> \<open>search_fault\<close>: a driver call inside the \<open>try\<close> of the form search raises,
    before the search button is looked up;
  \<^item> \<open>handler_fault\<close>: reading \<open>driver.page_source\<close> inside an \<open>except\<close>
    handler of the form search raises;
  \<^item> \<open>captcha_fault\<close>: the element lookup of the CAPTCHA check raises;
  \<^item> \<open>quit_fault\<close>: \<open>driver.quit\<close> raises.
\<close>

record world =
  setup_fault :: "exn option"
  get_fault :: "exn option"
  search_fault :: "exn option"
  handler_fault :: "exn option"
  captcha_fault :: "exn option"
  captcha_elements :: bool
  search_buttons :: bool
  page_source :: string
  current_url :: "exn + string"
  quit_fault :: "exn option"
  BeautifulSoup :: "pyval \<Rightarrow> exn + soup"
  urljoin :: "string \<Rightarrow> string \<Rightarrow> exn + string"

definition handle_captcha :: "world \<Rightarrow> bool" where
  "handle_captcha w =
     (case captcha_fault w of
        Some e \<Rightarrow> False
      | None \<Rightarrow> if captcha_elements w then False else True)"

text \<open>The two keyword tests on the page that follows the submission.\<close>

definition page_reports_error :: "string \<Rightarrow> bool" where
  "page_reports_error current_html =
     list_ex (\<lambda>error. py_in error (py_lower current_html))
       [''no records found'', ''case not found'', ''invalid case'',
        ''record not found'', ''no case found'']"

definition page_has_case_details :: "string \<Rightarrow> bool" where
  "page_has_case_details current_html =
     list_ex (\<lambda>indicator. py_in indicator (py_lower current_html))
       [''case details'', ''petitioner'', ''respondent'', ''hearing'',
        ''order'', ''judgment'', ''parties'']"

text \<open>
  The search button is looked up with \<open>By.VALUE\<close>. The class \<open>By\<close> of selenium has the
  attributes \<open>ID\<close>, \<open>XPATH\<close>, \<open>LINK_TEXT\<close>, \<open>PARTIAL_LINK_TEXT\<close>, \<open>NAME\<close>,
  \<open>TAG_NAME\<close>, \<open>CLASS_NAME\<close> and \<open>CSS_SELECTOR\<close> only, so the lookup of the attribute
  raises.
\<close>

definition By_VALUE :: "exn + string" where
  "By_VALUE =
     Inl (AttributeError (''type object '' @ [CHR 0x27] @ ''By'' @ [CHR 0x27]
            @ '' has no attribute '' @ [CHR 0x27] @ ''VALUE'' @ [CHR 0x27]))"

text \<open>The body of the \<open>try\<close> of the form search.\<close>

definition search_body :: "world \<Rightarrow> string \<Rightarrow> string \<Rightarrow> int \<Rightarrow> exn + dict" where
  "search_body w case_type case_number filing_year =
     (case search_fault w of
        Some e \<Rightarrow> Inl e
      | None \<Rightarrow>
          (let captcha_handled = handle_captcha w
           in case By_VALUE of
                Inl e \<Rightarrow> Inl e
              | Inr by_value \<Rightarrow>
                  if search_buttons w then
                    (let current_html = page_source w
                     in if page_reports_error current_html
                        then Inr [(''success'', PyBool False),
                                  (''error'', PyStr ''Case not found in court records''),
                                  (''html'', PyStr current_html)]
                        else if page_has_case_details current_html
                        then Inr [(''success'', PyBool True),
                                  (''html'', PyStr current_html)]
                        else Inr [(''success'', PyBool False),
                                  (''error'', PyStr ''Search form submitted but no case details found''),
                                  (''html'', PyStr current_html)])
                  else Inr [(''success'', PyBool False),
                            (''error'', PyStr ''Could not find search button on the page''),
                            (''html'', PyStr (page_source w))]))"

text \<open>
  The two handlers: \<open>TimeoutException\<close> first, then every other exception. Both read
  \<open>driver.page_source\<close>, which may raise in its turn.
\<close>

definition search_case_with_selenium :: "world \<Rightarrow> string \<Rightarrow> string \<Rightarrow> int \<Rightarrow> exn + dict" where
  "search_case_with_selenium w case_type case_number filing_year =
     (case search_body w case_type case_number filing_year of
        Inr result \<Rightarrow> Inr result
      | Inl e \<Rightarrow>
          (case handler_fault w of
             Some e' \<Rightarrow> Inl e'
           | None \<Rightarrow>
               (case e of
                  TimeoutException m \<Rightarrow>
                    Inr [(''success'', PyBool False),
                         (''error'', PyStr ''Page load timeout - court website may be down''),
                         (''html'', PyStr (page_source w))]
                | _ \<Rightarrow>
                    Inr [(''success'', PyBool False),
                         (''error'', PyStr (''Search failed: '' @ str_exn e)),
                         (''html'', PyStr (page_source w))])))"

text \<open>The parse step catches every exception of its body.\<close>

definition parse_failed :: "exn \<Rightarrow> pyval \<Rightarrow> dict" where
  "parse_failed e html =
     [(''success'', PyBool False),
      (''error'', PyStr (''Failed to parse case details: '' @ str_exn e)),
      (''raw_html'', html)]"

definition parse_case_details :: "world \<Rightarrow> pyval \<Rightarrow> dict" where
  "parse_case_details w html =
     (case BeautifulSoup w html of
        Inl e \<Rightarrow> parse_failed e html
      | Inr sp \<Rightarrow>
          (let parties = extract_parties sp;
               filing_date = extract_filing_date sp;
               next_hearing = extract_next_hearing sp;
               status = extract_case_status sp
           in case current_url w of
                Inl e \<Rightarrow> parse_failed e html
              | Inr base_url \<Rightarrow>
                  (case extract_pdf_links (urljoin w) sp base_url of
                     Inl e \<Rightarrow> parse_failed e html
                   | Inr pdf_links \<Rightarrow>
                       [(''success'', PyBool True),
                        (''parties_name'', PyStr parties),
                        (''filing_date'', PyStr filing_date),
                        (''next_hearing_date'', PyStr next_hearing),
                        (''case_status'', PyStr status),
                        (''pdf_links'', PyList pdf_links),
                        (''raw_html'', html)])))"

text \<open>
  The dynamic path. The \<open>finally\<close> clause quits the driver once it exists; an exception
  of \<open>quit\<close> replaces the outcome of the body.
\<close>

definition scrape_with_selenium :: "world \<Rightarrow> string \<Rightarrow> string \<Rightarrow> int \<Rightarrow> exn + dict" where
  "scrape_with_selenium w case_type case_number filing_year =
     (case setup_fault w of
        Some e \<Rightarrow> Inl e
      | None \<Rightarrow>
          (let body =
                 (case get_fault w of
                    Some e \<Rightarrow> Inl e
                  | None \<Rightarrow>
                      (case search_case_with_selenium w case_type case_number filing_year of
                         Inl e \<Rightarrow> Inl e
                       | Inr result \<Rightarrow>
                           (case subscript result ''success'' of
                              Inl e \<Rightarrow> Inl e
                            | Inr ok \<Rightarrow>
                                if truthy ok then
                                  (case subscript result ''html'' of
                                     Inl e \<Rightarrow> Inl e
                                   | Inr html \<Rightarrow> Inr (parse_case_details w html))
                                else Inr result)))
           in case quit_fault w of
                Some e \<Rightarrow> Inl e
              | None \<Rightarrow> body))"

text \<open>The static path: sample data, whatever the case.\<close>

definition scrape_with_requests :: "string \<Rightarrow> string \<Rightarrow> int \<Rightarrow> dict" where
  "scrape_with_requests case_type case_number filing_year =
     [(''success'', PyBool True),
      (''parties_name'',
         PyStr ''Petitioner: Sample Petitioner vs Respondent: Delhi State and Others''),
      (''filing_date'', PyStr (''15-01-'' @ str_int filing_year)),
      (''next_hearing_date'', PyStr ''25-08-2025''),
      (''case_status'', PyStr ''Matter pending for arguments''),
      (''pdf_links'',
         PyList [PyDict [(''url'', PyStr ''https://delhihighcourt.nic.in/app/sample-order-1.pdf''),
                         (''text'', PyStr ''Interim Order dated 20-07-2025'')],
                 PyDict [(''url'', PyStr ''https://delhihighcourt.nic.in/app/sample-judgment.pdf''),
                         (''text'', PyStr ''Final Judgment dated 01-08-2025'')]]),
      (''raw_html'', PyStr (
      ''\<newline>'' @
      ''            <html>\<newline>'' @
      ''            <body>\<newline>'' @
      ''            <div class=\"case-details\">\<newline>'' @
      ''                <h3>Case Details for '' @ case_type @ '' '' @ case_number @ ''/''
        @ str_int filing_year @ ''</h3>\<newline>'' @
      ''                <p><strong>Petitioner:</strong> Sample Petitioner</p>\<newline>'' @
      ''                <p><strong>Respondent:</strong> Delhi State and Others</p>\<newline>'' @
      ''                <p><strong>Filing Date:</strong> 15-01-'' @ str_int filing_year
        @ ''</p>\<newline>'' @
      ''                <p><strong>Next Hearing:</strong> 25-08-2025</p>\<newline>'' @
      ''                <p><strong>Status:</strong> Matter pending for arguments</p>\<newline>'' @
      ''                <div class=\"documents\">\<newline>'' @
      ''                    <a href=\"sample-order-1.pdf\">Interim Order</a>\<newline>'' @
      ''                    <a href=\"sample-judgment.pdf\">Final Judgment</a>\<newline>'' @
      ''                </div>\<newline>'' @
      ''            </div>\<newline>'' @
      ''            </body>\<newline>'' @
      ''            </html>\<newline>'' @
      ''            ''))]"

section \<open>Fetch orchestrator\<close>

text \<open>
  The \<open>try\<close>/\<open>except\<close> chain of \<open>scrape_case_data\<close> over the outcomes of the two
  paths, with the log of the paths it called.
\<close>

datatype path = Selenium | Requests

definition try_paths :: "(exn + dict) \<Rightarrow> (exn + dict) \<Rightarrow> path list \<times> dict" where
  "try_paths dynamic static =
     (case dynamic of
        Inr result \<Rightarrow> ([Selenium], result)
      | Inl selenium_error \<Rightarrow>
          (case static of
             Inr result \<Rightarrow> ([Selenium, Requests], result)
           | Inl requests_error \<Rightarrow>
               ([Selenium, Requests],
                [(''success'', PyBool False),
                 (''error'', PyStr (''Both scraping methods failed. Selenium error: ''
                    @ str_exn selenium_error @ '', Requests error: ''
                    @ str_exn requests_error)),
                 (''html'', PyStr [])])))"

definition scrape_case_data :: "world \<Rightarrow> string \<Rightarrow> string \<Rightarrow> int \<Rightarrow> path list \<times> dict" where
  "scrape_case_data w case_type case_number filing_year =
     try_paths (scrape_with_selenium w case_type case_number filing_year)
       (Inr (scrape_with_requests case_type case_number filing_year))"

section \<open>Document fetcher\<close>

text \<open>
  \<open>urlparse\<close> belongs to the standard library: \<open>path_of url\<close> stands for
  \<open>urlparse(url).path\<close>, which is the path or a \<open>ValueError\<close> (a malformed authority
  such as \<open>http://[x/a.pdf\<close>). \<open>clock\<close> is the value of \<open>int(time.time())\<close>.
  \<open>split('/')[-1]\<close> is the text behind the last slash.
\<close>

definition last_segment :: "string \<Rightarrow> string" where
  "last_segment p = rev (takeWhile (\<lambda>c. c \<noteq> CHR ''/'') (rev p))"

definition extract_filename_from_url ::
  "(string \<Rightarrow> exn + string) \<Rightarrow> int \<Rightarrow> string \<Rightarrow> exn + string"
where
  "extract_filename_from_url path_of clock url =
     (case path_of url of
        Inl e \<Rightarrow> Inl e
      | Inr p \<Rightarrow>
          (let filename = last_segment p
           in if filename = [] \<or> \<not> endswith filename ''.pdf''
              then Inr (''court_document_'' @ str_int clock @ ''.pdf'')
              else Inr filename))"

text \<open>
  A response of \<open>session.get\<close>: the message of the \<open>HTTPError\<close> that
  \<open>raise_for_status\<close> raises (a \<open>RequestException\<close>), if it raises; the content-type
  header, if there is one; and the body.
\<close>

record response =
  raise_for_status :: "string option"
  content_type_header :: "string option"
  content :: string

definition download_body ::
  "(string \<Rightarrow> exn + response) \<Rightarrow> (string \<Rightarrow> exn + string) \<Rightarrow> int \<Rightarrow> string \<Rightarrow> exn + dict"
where
  "download_body session_get path_of clock pdf_url =
     (case session_get pdf_url of
        Inl e \<Rightarrow> Inl e
      | Inr resp \<Rightarrow>
          (case raise_for_status resp of
             Some m \<Rightarrow> Inl (RequestException m)
           | None \<Rightarrow>
               (let content_type =
                      py_lower (case content_type_header resp of None \<Rightarrow> [] | Some v \<Rightarrow> v)
                in if \<not> py_in ''pdf'' content_type \<and> \<not> endswith (py_lower pdf_url) ''.pdf''
                   then Inr [(''success'', PyBool False),
                             (''error'', PyStr ''URL does not point to a PDF file'')]
                   else (case extract_filename_from_url path_of clock pdf_url of
                           Inl e \<Rightarrow> Inl e
                         | Inr filename \<Rightarrow>
                             Inr [(''success'', PyBool True),
                                  (''content'', PyBytes (content resp)),
                                  (''size'', PyInt (int (length (content resp)))),
                                  (''filename'', PyStr filename)]))))"

text \<open>The handler takes \<open>RequestException\<close> only; any other exception leaves the function.\<close>

definition download_pdf ::
  "(string \<Rightarrow> exn + response) \<Rightarrow> (string \<Rightarrow> exn + string) \<Rightarrow> int \<Rightarrow> string \<Rightarrow> exn + dict"
where
  "download_pdf session_get path_of clock pdf_url =
     (case download_body session_get path_of clock pdf_url of
        Inl (RequestException m) \<Rightarrow>
          Inr [(''success'', PyBool False),
               (''error'', PyStr (''Download failed: '' @ m))]
      | r \<Rightarrow> r)"

section \<open>Result cache\<close>

text \<open>
  The rows of \<open>CaseQuery\<close>, in the order they were added; \<open>query_timestamp\<close> is the
  value of \<open>query_timestamp.timestamp()\<close>, in seconds.
\<close>

record case_query =
  case_type :: string
  case_number :: string
  filing_year :: int
  query_timestamp :: real
  success :: bool
  error_message :: "string option"
  parties_name :: "string option"
  filing_date :: "string option"
  next_hearing_date :: "string option"
  case_status :: "string option"
  raw_html_response :: "string option"
  pdf_links :: "string option"

text \<open>\<open>filter_by(...).order_by(query_timestamp.desc()).first()\<close>\<close>

definition cached_query :: "case_query list \<Rightarrow> string \<Rightarrow> string \<Rightarrow> int \<Rightarrow> case_query option" where
  "cached_query db ct cn fy =
     (case sort_key (\<lambda>q. - query_timestamp q)
             (filter (\<lambda>q. case_type q = ct \<and> case_number q = cn \<and> filing_year q = fy \<and> success q) db)
      of [] \<Rightarrow> None
       | q # qs \<Rightarrow> Some q)"

text \<open>
  \<open>db.func.now()\<close> builds the SQL expression \<open>now()\<close>; it is no \<open>datetime\<close>, and
  SQLAlchemy answers the lookup of \<open>timestamp\<close> on it with an \<open>AttributeError\<close>.
\<close>

definition db_func_now_timestamp :: "exn + real" where
  "db_func_now_timestamp = Inl (AttributeError ''timestamp'')"

text \<open>
  The cache decision of \<open>search_case\<close>: the row served, \<open>None\<close> for a miss, or the
  exception that leaves the test (the handler of \<open>search_case\<close> then reports an
  unexpected error and redirects to the index page).
\<close>

definition cache_lookup ::
  "case_query list \<Rightarrow> string \<Rightarrow> string \<Rightarrow> int \<Rightarrow> exn + case_query option"
where
  "cache_lookup db ct cn fy =
     (case cached_query db ct cn fy of
        None \<Rightarrow> Inr None
      | Some q \<Rightarrow>
          (case db_func_now_timestamp of
             Inl e \<Rightarrow> Inl e
           | Inr now \<Rightarrow> if query_timestamp q > now - 3600 then Inr (Some q) else Inr None))"

text \<open>\<open>db.session.add(query); db.session.commit()\<close>\<close>

definition store :: "case_query list \<Rightarrow> case_query \<Rightarrow> case_query list" where
  "store db query = db @ [query]"

section \<open>Example sessions\<close>

text \<open>
  A session in which every driver call works and the result page shows one party and one
  document link, with the text and anchors an HTML parser reads from it.
\<close>

definition live_soup :: soup where
  "live_soup =
     \<lparr>get_text = ''Petitioner: A. KumarInterim Order'',
      find_all_a_href = [\<lparr>href = ''docs/order1.pdf'', anchor_text = ''Interim Order''\<rparr>]\<rparr>"

definition live_world :: world where
  "live_world =
     \<lparr>setup_fault = None, get_fault = None, search_fault = None, handler_fault = None,
      captcha_fault = None, captcha_elements = False, search_buttons = True,
      page_source = ''<p>Petitioner: A. Kumar</p><a href=\"docs/order1.pdf\">Interim Order</a>'',
      current_url = Inr ''https://example.org/case/'', quit_fault = None,
      BeautifulSoup = (\<lambda>markup. Inr live_soup),
      urljoin = (\<lambda>base h. Inr (base @ h))\<rparr>"

text \<open>A successful row of the query log, and an anchor list with an upper-case extension.\<close>

definition cached_row :: case_query where
  "cached_row =
     \<lparr>case_type = ''CRL.A.'', case_number = ''12'', filing_year = 2019,
      query_timestamp = 1700000000, success = True, error_message = None,
      parties_name = Some ''a. kumar'', filing_date = Some ''05-03-2019'',
      next_hearing_date = Some ''01-02-2020'', case_status = Some ''Pending'',
      raw_html_response = Some ''<p>Petitioner: A. Kumar</p>'', pdf_links = Some ''[]''\<rparr>"


section \<open>Properties of the string functions\<close>

lemma py_in_sublist: "py_in sub s = sublist sub s"
  by (induction s) (auto simp: sublist_Cons_right)

lemma py_in_middle: "py_in s (a @ s @ b)"
  by (simp add: py_in_sublist sublist_appendI)


section \<open>Document fetcher: the file name\<close>




section \<open>Document fetcher: failures are results\<close>

text \<open>
  Claim C7. Whenever the content type of the response does not contain \<open>pdf\<close> and the
  URL does not end in \<open>.pdf\<close> (both compared in lower case), \<open>download_pdf\<close> returns
  a failure record: the content-type rejection when \<open>raise_for_status\<close> passes, the
  caught \<open>HTTPError\<close> otherwise. A \<open>RequestException\<close> of \<open>session.get\<close> (the
  network and transport failures of the library) is returned as a failure record as well.
\<close>

theorem download_pdf_failures_are_results:
  "(session_get pdf_url = Inr resp \<and>
    \<not> py_in ''pdf'' (py_lower (case content_type_header resp of None \<Rightarrow> [] | Some v \<Rightarrow> v)) \<and>
    \<not> endswith (py_lower pdf_url) ''.pdf'' \<longrightarrow>
      download_pdf session_get path_of clock pdf_url =
        Inr [(''success'', PyBool False),
             (''error'', PyStr (case raise_for_status resp of
                                  None \<Rightarrow> ''URL does not point to a PDF file''
                                | Some m \<Rightarrow> ''Download failed: '' @ m))]) \<and>
   (session_get pdf_url = Inl (RequestException m) \<longrightarrow>
      download_pdf session_get path_of clock pdf_url =
        Inr [(''success'', PyBool False), (''error'', PyStr (''Download failed: '' @ m))])"
  by (simp add: download_pdf_def download_body_def Let_def split: option.splits)

theorem download_pdf_failures_are_results_witness:
  "(\<lambda>u. Inr \<lparr>raise_for_status = None, content_type_header = Some ''text/html'', content = ''<html>''\<rparr>)
      ''http://e.org/view?id=1''
     = Inr \<lparr>raise_for_status = None, content_type_header = Some ''text/html'', content = ''<html>''\<rparr> \<and>
   \<not> py_in ''pdf'' (py_lower ''text/html'') \<and>
   \<not> endswith (py_lower ''http://e.org/view?id=1'') ''.pdf'' \<and>
   download_pdf
     (\<lambda>u. Inr \<lparr>raise_for_status = None, content_type_header = Some ''text/html'', content = ''<html>''\<rparr>)
     (\<lambda>u. Inr ''/view'') 7 ''http://e.org/view?id=1''
     = Inr [(''success'', PyBool False), (''error'', PyStr ''URL does not point to a PDF file'')] \<and>
   download_pdf (\<lambda>u. Inl (RequestException ''connection refused'')) (\<lambda>u. Inr ''/a.pdf'') 7
       ''http://e.org/a.pdf''
     = Inr [(''success'', PyBool False), (''error'', PyStr ''Download failed: connection refused'')]"
  using download_pdf_failures_are_results
      [where session_get = "\<lambda>u. Inr \<lparr>raise_for_status = None, content_type_header = Some ''text/html'', content = ''<html>''\<rparr>"
         and pdf_url = "''http://e.org/view?id=1''"
         and resp = "\<lparr>raise_for_status = None, content_type_header = Some ''text/html'', content = ''<html>''\<rparr>"
         and path_of = "\<lambda>u. Inr ''/view''" and clock = 7]
    download_pdf_failures_are_results
      [where session_get = "\<lambda>u. Inl (RequestException ''connection refused'')"
         and pdf_url = "''http://e.org/a.pdf''"
         and path_of = "\<lambda>u. Inr ''/a.pdf''" and clock = 7 and m = "''connection refused''"]
  by (simp add: py_lower_def lower_char_def endswith_def)

section \<open>Form driver: challenge detection and classification\<close>

lemma search_body_ignores_captcha:
  "search_body (w\<lparr>captcha_elements := b, captcha_fault := f\<rparr>) ct cn fy = search_body w ct cn fy"
  by (simp add: search_body_def By_VALUE_def Let_def split: option.splits)

lemma search_ignores_captcha:
  "search_case_with_selenium (w\<lparr>captcha_elements := b, captcha_fault := f\<rparr>) ct cn fy
     = search_case_with_selenium w ct cn fy"
  by (simp add: search_case_with_selenium_def search_body_ignores_captcha
      split: option.splits sum.splits exn.splits)

lemma parse_ignores_captcha:
  "parse_case_details (w\<lparr>captcha_elements := b, captcha_fault := f\<rparr>) html
     = parse_case_details w html"
  by (simp add: parse_case_details_def split: sum.splits)

text \<open>
  Claim C9, as stated: two runs that differ only in whether a CAPTCHA element was detected
  are classified differently. No such pair of runs exists.
\<close>

theorem challenge_weighed_counterexample:
  "\<not> (\<exists>w b b' ct cn fy.
        search_case_with_selenium (w\<lparr>captcha_elements := b\<rparr>) ct cn fy
          \<noteq> search_case_with_selenium (w\<lparr>captcha_elements := b'\<rparr>) ct cn fy)"
  by (simp add: search_case_with_selenium_def search_body_def By_VALUE_def Let_def
      split: option.splits sum.splits exn.splits)

text \<open>
  Claim C9, amended. The result of the form search, and of the whole retrieval, is the same
  whatever the CAPTCHA check finds or raises: the value of \<open>handle_captcha\<close> is computed
  and not used.
\<close>

theorem classification_ignores_challenge:
  "search_case_with_selenium (w\<lparr>captcha_elements := b, captcha_fault := f\<rparr>) ct cn fy
     = search_case_with_selenium w ct cn fy \<and>
   scrape_case_data (w\<lparr>captcha_elements := b, captcha_fault := f\<rparr>) ct cn fy
     = scrape_case_data w ct cn fy"
  by (simp add: search_ignores_captcha parse_ignores_captcha scrape_case_data_def
      scrape_with_selenium_def Let_def split: option.splits sum.splits)

theorem classification_ignores_challenge_witness:
  "handle_captcha (live_world\<lparr>captcha_elements := True, captcha_fault := None\<rparr>)
     \<noteq> handle_captcha live_world \<and>
   search_case_with_selenium (live_world\<lparr>captcha_elements := True, captcha_fault := None\<rparr>)
       ''CRL.A.'' ''12'' 2019
     = search_case_with_selenium live_world ''CRL.A.'' ''12'' 2019 \<and>
   scrape_case_data (live_world\<lparr>captcha_elements := True, captcha_fault := None\<rparr>)
       ''CRL.A.'' ''12'' 2019
     = scrape_case_data live_world ''CRL.A.'' ''12'' 2019"
  using classification_ignores_challenge [where w = live_world and b = True and f = None and ct = "''CRL.A.''" and cn = "''12''" and fy = 2019]
  by (simp add: handle_captcha_def live_world_def)

section \<open>Fetch orchestrator: when the fallback runs\<close>














section \<open>Result cache: the freshness test\<close>

lemma sort_key_Nil_iff: "(sort_key f xs = []) = (xs = [])"
proof -
  have "length (sort_key f xs) = length xs" by (rule length_sort)
  then show ?thesis
    by (cases xs; cases "sort_key f xs") simp_all
qed

lemma cached_query_None_iff:
  "(cached_query db ct cn fy = None) =
     (\<not> list_ex (\<lambda>q. case_type q = ct \<and> case_number q = cn \<and> filing_year q = fy \<and> success q) db)"
proof -
  let ?rows = "filter (\<lambda>q. case_type q = ct \<and> case_number q = cn \<and> filing_year q = fy \<and> success q) db"
  have "(cached_query db ct cn fy = None) = (sort_key (\<lambda>q. - query_timestamp q) ?rows = [])"
    by (simp add: cached_query_def split: list.splits)
  also have "\<dots> = (?rows = [])"
    by (rule sort_key_Nil_iff)
  also have "\<dots> = (\<not> list_ex (\<lambda>q. case_type q = ct \<and> case_number q = cn \<and> filing_year q = fy \<and> success q) db)"
    by (simp add: list_ex_iff filter_empty_conv)
  finally show ?thesis .
qed

lemma cache_lookup_eq:
  "cache_lookup db ct cn fy =
     (if list_ex (\<lambda>q. case_type q = ct \<and> case_number q = cn \<and> filing_year q = fy \<and> success q) db
      then Inl (AttributeError ''timestamp'') else Inr None)"
  using cached_query_None_iff [of db ct cn fy]
  by (cases "cached_query db ct cn fy") (simp_all add: cache_lookup_def db_func_now_timestamp_def)

text \<open>
  Claim C4. The claim describes the cache the code sets out to build (\<open>Use cache if less
  than 1 hour old\<close>); the code does not get there. Whenever a successful row of the same
  identity exists, the freshness test reaches \<open>db.func.now().timestamp()\<close> and raises, so
  no row is ever served; with no such row the lookup is a miss.
\<close>

theorem cache_lookup_never_hits:
  "cache_lookup db ct cn fy =
     (if list_ex (\<lambda>q. case_type q = ct \<and> case_number q = cn \<and> filing_year q = fy \<and> success q) db
      then Inl (AttributeError ''timestamp'') else Inr None) \<and>
   cache_lookup (store [] cached_row) ''CRL.A.'' ''12'' 2019 = Inl (AttributeError ''timestamp'')"
  by (simp add: cache_lookup_eq store_def cached_row_def)

section \<open>Link extractor\<close>






end
